theory Spec2Isabelle
  imports Main "HOL-Library.AList"
begin

section \<open>Python values, dictionaries and exceptions\<close>

text \<open>
  The provider's API objects (an uploaded file, a finetuning job) are dictionaries read
  with \<^verbatim>\<open>obj["key"]\<close>, and keyword arguments are dictionaries too. A value is
  \<^verbatim>\<open>None\<close>, a bool, an int, a str, or any other object (a float, a list, a callback
  manager), which the program only passes on or renders with \<^verbatim>\<open>str()\<close>: such
  an object is carried as its rendering.
\<close>

datatype pyval = PyNone | PyBool bool | PyInt int | PyStr string | PyOther string

text \<open>
  A dictionary is an association list with distinct keys, in insertion order, as a Python
  dict is. \<^verbatim>\<open>d[k]\<close> is \<open>map_of d k\<close>, with the KeyError written out at each read.
\<close>

type_synonym pydict = "(string \<times> pyval) list"

text \<open>Decimal rendering of an int, for \<^verbatim>\<open>str()\<close> inside an f-string.\<close>

fun nat_str :: "nat \<Rightarrow> string" where
  "nat_str n =
     (if n < 10 then [char_of (48 + n)]
      else nat_str (n div 10) @ [char_of (48 + n mod 10)])"

declare nat_str.simps [simp del]

definition int_str :: "int \<Rightarrow> string" where
  "int_str i = (if i < 0 then ''-'' @ nat_str (nat (- i)) else nat_str (nat i))"

fun py_str :: "pyval \<Rightarrow> string" where
  "py_str PyNone = ''None''"
| "py_str (PyBool b) = (if b then ''True'' else ''False'')"
| "py_str (PyInt i) = int_str i"
| "py_str (PyStr s) = s"
| "py_str (PyOther r) = r"

text \<open>
  Exceptions by class. \<open>ValueError\<close> and \<open>ImportError\<close> carry the message the program
  gives them, and \<open>InvalidRequestError\<close> (\<^verbatim>\<open>openai.error.InvalidRequestError\<close>) the
  message of the server. The two exceptions that the interpreter raises carry what they
  are about and not the interpreter's wording of it, which changes between versions:
  \<open>KeyError k\<close> is the read of a missing key \<open>k\<close>, and \<open>TypeError k\<close> is the call in
  which the argument \<open>k\<close> is given twice. \<open>OtherError c m\<close> is an exception of any class
  \<open>c\<close> other than the five named here (a network error, an authentication error, an
  OSError).
\<close>

datatype exn =
    ValueError string
  | KeyError string
  | TypeError string
  | ImportError string
  | InvalidRequestError string
  | OtherError string string

text \<open>What \<^verbatim>\<open>except openai.error.InvalidRequestError\<close> catches.\<close>

fun is_InvalidRequestError :: "exn \<Rightarrow> bool" where
  "is_InvalidRequestError (InvalidRequestError m) = True"
| "is_InvalidRequestError e = False"

text \<open>Truth value of \<^verbatim>\<open>self._start_job\<close>: \<^verbatim>\<open>None\<close> and the empty dict are false.\<close>

fun truthy :: "pydict option \<Rightarrow> bool" where
  "truthy None = False"
| "truthy (Some d) = (d \<noteq> [])"

text \<open>\<^verbatim>\<open>os.path.basename\<close>: what follows the last slash.\<close>

definition basename :: "string \<Rightarrow> string" where
  "basename p = rev (takeWhile (\<lambda>c. c \<noteq> CHR ''/'') (rev p))"

section \<open>The world outside the process\<close>

text \<open>
  Every call that leaves the orchestrator is a field of the environment, and every such
  call is written to a trace in the order the program makes it. The job-creation
  endpoint is indexed by the number of the attempt, since its answer changes while the
  uploaded file is being processed.

  The validator \<open>validate_json\<close> (\<^verbatim>\<open>llama_index/finetuning/openai/validate_json.py\<close>)
  is not among the sources, so it is a field of the environment like the remote calls:
  by its contract it returns nothing on a well-formed file and raises on a malformed
  one, and \<open>Some e\<close> is the exception it raises on the file at that path.
\<close>

record remote =
  validate_json :: "string \<Rightarrow> exn option"
  open_rb :: "string \<Rightarrow> exn + string"
  File_create :: "string \<Rightarrow> string \<Rightarrow> string \<Rightarrow> exn + pydict"
  FineTuningJob_create :: "nat \<Rightarrow> pyval \<Rightarrow> string \<Rightarrow> exn + pydict"
  FineTuningJob_retrieve :: "pyval \<Rightarrow> exn + pydict"

datatype event =
    Validate string
  | OpenFile string
  | FileCreate string string string
  | JobCreate pyval string
  | JobRetrieve pyval
  | Sleep nat
  | LogInfo string
  | Print string

section \<open>OpenAIFinetuneEngine\<close>

record engine =
  base_model :: string
  data_path :: string
  verbose :: bool
  start_job :: "pydict option"

text \<open>\<^verbatim>\<open>__init__\<close>: with a \<^verbatim>\<open>start_job_id\<close> the job is retrieved at once.\<close>

definition engine_init ::
  "remote \<Rightarrow> string \<Rightarrow> string \<Rightarrow> bool \<Rightarrow> string option \<Rightarrow> (exn + engine) \<times> event list" where
  "engine_init env bm dp vb start_job_id =
     (case start_job_id of
        None \<Rightarrow>
          (Inr \<lparr>base_model = bm, data_path = dp, verbose = vb, start_job = None\<rparr>, [])
      | Some jid \<Rightarrow>
          (case FineTuningJob_retrieve env (PyStr jid) of
             Inl e \<Rightarrow> (Inl e, [JobRetrieve (PyStr jid)])
           | Inr job \<Rightarrow>
               (Inr \<lparr>base_model = bm, data_path = dp, verbose = vb, start_job = Some job\<rparr>,
                [JobRetrieve (PyStr jid)])))"

text \<open>
  The \<^verbatim>\<open>while True\<close> loop of \<^verbatim>\<open>finetune\<close>. Attempt \<open>n\<close> reads
  \<^verbatim>\<open>output["id"]\<close>, calls the job-creation endpoint, and on success assigns
  \<^verbatim>\<open>self._start_job\<close> and leaves the loop. An \<open>InvalidRequestError\<close> is caught:
  the loop prints, sleeps 60 seconds and goes round again. Any other exception leaves
  the loop and the function. The loop has no bound, so it is a partial function: \<open>None\<close>
  is the run that never returns.
\<close>

partial_function (option) launch_training ::
  "remote \<Rightarrow> engine \<Rightarrow> pydict \<Rightarrow> nat \<Rightarrow> event list
     \<Rightarrow> ((exn + unit) \<times> engine \<times> event list) option" where
  "launch_training env self output n tr =
     (case map_of output ''id'' of
        None \<Rightarrow> Some (Inl (KeyError ''id''), self, tr)
      | Some file_id \<Rightarrow>
          (case FineTuningJob_create env n file_id (base_model self) of
             Inr job_output \<Rightarrow>
               Some (Inr (), self\<lparr>start_job := Some job_output\<rparr>,
                     tr @ [JobCreate file_id (base_model self)])
           | Inl e \<Rightarrow>
               if is_InvalidRequestError e
               then launch_training env self output (Suc n)
                      (tr @ [JobCreate file_id (base_model self),
                             Print ''Waiting for file to be ready...'', Sleep 60])
               else Some (Inl e, self, tr @ [JobCreate file_id (base_model self)])))"

text \<open>
  What \<^verbatim>\<open>finetune\<close> has done when the loop starts (validation, upload and the
  first progress message), and what it does after the loop (the second message).
\<close>

definition uploaded_events :: "engine \<Rightarrow> string \<Rightarrow> event list" where
  "uploaded_events self f =
     [Validate (data_path self), OpenFile (data_path self),
      FileCreate f ''fine-tune'' (basename (data_path self)),
      LogInfo ''File uploaded...'']
     @ (if verbose self then [Print ''File uploaded...''] else [])"

definition info_str :: "pyval \<Rightarrow> string" where
  "info_str file_id =
     ''Training job '' @ py_str file_id @ '' launched. You will be emailed when it''
     @ [CHR 0x27] @ ''s complete.''"

definition launched_events :: "engine \<Rightarrow> pyval \<Rightarrow> event list" where
  "launched_events self file_id =
     [LogInfo (info_str file_id)]
     @ (if verbose self then [Print (info_str file_id)] else [])"

definition finetune ::
  "remote \<Rightarrow> engine \<Rightarrow> ((exn + unit) \<times> engine \<times> event list) option" where
  "finetune env self =
     (case validate_json env (data_path self) of
        Some e \<Rightarrow> Some (Inl e, self, [Validate (data_path self)])
      | None \<Rightarrow>
          (let file_name = basename (data_path self) in
           case open_rb env (data_path self) of
             Inl e \<Rightarrow>
               Some (Inl e, self, [Validate (data_path self), OpenFile (data_path self)])
           | Inr f \<Rightarrow>
               (case File_create env f ''fine-tune'' file_name of
                  Inl e \<Rightarrow>
                    Some (Inl e, self,
                          [Validate (data_path self), OpenFile (data_path self),
                           FileCreate f ''fine-tune'' file_name])
                | Inr output \<Rightarrow>
                    (case launch_training env self output 0 (uploaded_events self f) of
                       None \<Rightarrow> None
                     | Some (Inl e, self', tr) \<Rightarrow> Some (Inl e, self', tr)
                     | Some (Inr u, self', tr) \<Rightarrow>
                         (case map_of output ''id'' of
                            None \<Rightarrow> Some (Inl (KeyError ''id''), self', tr)
                          | Some file_id \<Rightarrow>
                              Some (Inr (), self', tr @ launched_events self' file_id))))))"

text \<open>
  \<^verbatim>\<open>get_current_job\<close>: the guard is \<^verbatim>\<open>not self._start_job\<close>, then the job
  is retrieved again by the id of the stored snapshot. The engine is not changed.
\<close>

definition get_current_job :: "remote \<Rightarrow> engine \<Rightarrow> (exn + pydict) \<times> event list" where
  "get_current_job env self =
     (if \<not> truthy (start_job self)
      then (Inl (ValueError ''Must call finetune() first''), [])
      else case start_job self of
             None \<Rightarrow> (Inl (ValueError ''Must call finetune() first''), [])
           | Some job \<Rightarrow>
               (case map_of job ''id'' of
                  None \<Rightarrow> (Inl (KeyError ''id''), [])
                | Some job_id \<Rightarrow>
                    (FineTuningJob_retrieve env job_id, [JobRetrieve job_id])))"

text \<open>
  \<^verbatim>\<open>get_finetuned_model\<close> ends in the call \<^verbatim>\<open>OpenAI(model=model_id, **model_kwargs)\<close>.
  The class \<^verbatim>\<open>OpenAI\<close> is not among the sources, so the model returns the call itself:
  the model id and the keyword dictionary handed to the constructor. Python refuses the
  call with a TypeError when \<^verbatim>\<open>model_kwargs\<close> has a key \<^verbatim>\<open>model\<close>, since that
  keyword is then given twice.

  This is the body of the method: \<open>model_kwargs\<close> is the dictionary that
  \<^verbatim>\<open>**model_kwargs\<close> has collected. The call of the method comes below.
\<close>

record llm_call =
  llm_model :: pyval
  llm_kwargs :: pydict

definition get_finetuned_model ::
  "remote \<Rightarrow> engine \<Rightarrow> pydict \<Rightarrow> (exn + llm_call) \<times> event list" where
  "get_finetuned_model env self model_kwargs =
     (case get_current_job env self of
        (Inl e, tr) \<Rightarrow> (Inl e, tr)
      | (Inr current_job, tr) \<Rightarrow>
          (case map_of current_job ''id'' of
             None \<Rightarrow> (Inl (KeyError ''id''), tr)
           | Some job_id \<Rightarrow>
               (case map_of current_job ''status'' of
                  None \<Rightarrow> (Inl (KeyError ''status''), tr)
                | Some status \<Rightarrow>
                    (case map_of current_job ''fine_tuned_model'' of
                       None \<Rightarrow> (Inl (KeyError ''fine_tuned_model''), tr)
                     | Some model_id \<Rightarrow>
                         if model_id = PyNone
                         then (Inl (ValueError (''Job '' @ py_str job_id
                                 @ '' does not have a finetuned model id ready yet.'')), tr)
                         else if status \<noteq> PyStr ''succeeded''
                         then (Inl (ValueError (''Job '' @ py_str job_id @ '' has status ''
                                 @ py_str status @ '', cannot get model'')), tr)
                         else if ''model'' \<in> fst ` set model_kwargs
                         then (Inl (TypeError ''model''), tr)
                         else (Inr \<lparr>llm_model = model_id, llm_kwargs = model_kwargs\<rparr>, tr)))))"

text \<open>
  The call \<^verbatim>\<open>engine.get_finetuned_model(**keywords)\<close>. Python binds the arguments
  before the body runs: a keyword \<^verbatim>\<open>self\<close> gives the parameter \<^verbatim>\<open>self\<close> twice,
  and the call raises a TypeError with nothing retrieved. Every other keyword goes into
  \<^verbatim>\<open>model_kwargs\<close>.
\<close>

definition get_finetuned_model_call ::
  "remote \<Rightarrow> engine \<Rightarrow> pydict \<Rightarrow> (exn + llm_call) \<times> event list" where
  "get_finetuned_model_call env self keywords =
     (if ''self'' \<in> fst ` set keywords
      then (Inl (TypeError ''self''), [])
      else get_finetuned_model env self keywords)"

section \<open>AzureOpenAI\<close>

text \<open>
  The ambient settings are attributes of the \<^verbatim>\<open>openai\<close> module, read when the wrapper
  is constructed. \<open>None\<close> for the module is the failed import.
\<close>

record openai_module =
  api_base :: string
  api_type :: string
  api_version :: "string option"
  api_key :: "string option"

definition validate_env :: "openai_module option \<Rightarrow> exn option" where
  "validate_env ambient =
     (case ambient of
        None \<Rightarrow>
          Some (ImportError ''You must install the `openai` package to use Azure OpenAI.'')
      | Some openai \<Rightarrow>
          if api_base openai = ''https://api.openai.com/v1''
          then Some (ValueError
                 (''You must set OPENAI_API_BASE to your Azure endpoint. ''
                  @ ''It should look like https://YOUR_RESOURCE_NAME.openai.azure.com/''))
          else if api_type openai \<notin> set [''azure'', ''azure_ad'', ''azuread'']
          then Some (ValueError
                 (''You must set OPENAI_API_TYPE to one of ''
                  @ ''(`azure`, `azuread`, `azure_ad`) for Azure OpenAI.''))
          else if api_version openai = None
          then Some (ValueError ''You must set OPENAI_API_VERSION for Azure OpenAI.'')
          else None)"

text \<open>
  \<^verbatim>\<open>__init__\<close> checks the engine, validates the environment, and hands every argument
  to the constructor of \<^verbatim>\<open>OpenAI\<close>, which is not among the sources: the model returns
  the arguments of that call. \<open>Inr\<close> says that the wrapper has raised nothing of its own
  and that the constructor of the superclass is called, not that it succeeds.
\<close>

record azure_args =
  arg_model :: string
  arg_engine :: "string option"
  arg_temperature :: pyval
  arg_max_tokens :: "int option"
  arg_additional_kwargs :: "pydict option"
  arg_max_retries :: int
  arg_callback_manager :: "pyval option"
  arg_kwargs :: pydict

record super_init_call =
  sup_engine :: string
  sup_model :: string
  sup_temperature :: pyval
  sup_max_tokens :: "int option"
  sup_additional_kwargs :: "pydict option"
  sup_max_retries :: int
  sup_callback_manager :: "pyval option"
  sup_kwargs :: pydict

definition super_init_args :: "string \<Rightarrow> azure_args \<Rightarrow> super_init_call" where
  "super_init_args engine args =
     \<lparr>sup_engine = engine, sup_model = arg_model args,
      sup_temperature = arg_temperature args,
      sup_max_tokens = arg_max_tokens args,
      sup_additional_kwargs = arg_additional_kwargs args,
      sup_max_retries = arg_max_retries args,
      sup_callback_manager = arg_callback_manager args,
      sup_kwargs = arg_kwargs args\<rparr>"

definition azure_init :: "openai_module option \<Rightarrow> azure_args \<Rightarrow> exn + super_init_call" where
  "azure_init ambient args =
     (case arg_engine args of
        None \<Rightarrow> Inl (ValueError ''You must specify an `engine` parameter.'')
      | Some engine \<Rightarrow>
          (case validate_env ambient of
             Some e \<Rightarrow> Inl e
           | None \<Rightarrow> Inr (super_init_args engine args)))"

text \<open>
  \<^verbatim>\<open>_model_kwargs\<close>: the dictionary of the superclass, which is not among the sources
  and is a parameter here, with \<^verbatim>\<open>pop("model")\<close> (a KeyError when the key is
  missing) and then \<^verbatim>\<open>["engine"] = self.engine\<close>.
\<close>

definition model_kwargs :: "string \<Rightarrow> pydict \<Rightarrow> exn + pydict" where
  "model_kwargs engine super_model_kwargs =
     (case map_of super_model_kwargs ''model'' of
        None \<Rightarrow> Inl (KeyError ''model'')
      | Some v \<Rightarrow>
          Inr (AList.update ''engine'' (PyStr engine)
                 (AList.delete ''model'' super_model_kwargs)))"

section \<open>The retry condition and the events of a retry\<close>

text \<open>
  Attempt \<open>k\<close> is retried when the job-creation call raises an exception that the
  \<^verbatim>\<open>except\<close> clause catches. Each retried attempt leaves three events: the call, the
  message, and the sleep of 60 seconds.
\<close>

definition retried :: "remote \<Rightarrow> engine \<Rightarrow> pyval \<Rightarrow> nat \<Rightarrow> bool" where
  "retried env self file_id k =
     (case FineTuningJob_create env k file_id (base_model self) of
        Inl e \<Rightarrow> is_InvalidRequestError e
      | Inr job \<Rightarrow> False)"

definition retry_events :: "engine \<Rightarrow> pyval \<Rightarrow> nat \<Rightarrow> event list" where
  "retry_events self file_id n =
     concat (replicate n [JobCreate file_id (base_model self),
                          Print ''Waiting for file to be ready...'', Sleep 60])"

section \<open>Concrete worlds\<close>

definition job_running :: pydict where
  "job_running =
     [(''id'', PyStr ''ftjob-1''), (''status'', PyStr ''running''),
      (''fine_tuned_model'', PyNone)]"

definition job_succeeded :: pydict where
  "job_succeeded =
     [(''id'', PyStr ''ftjob-1''), (''status'', PyStr ''succeeded''),
      (''fine_tuned_model'', PyStr ''ft:abc123'')]"

definition job_failed :: pydict where
  "job_failed =
     [(''id'', PyStr ''ftjob-1''), (''status'', PyStr ''failed''),
      (''fine_tuned_model'', PyStr ''ft:abc123'')]"

definition job_succeeded_no_model :: pydict where
  "job_succeeded_no_model =
     [(''id'', PyStr ''ftjob-1''), (''status'', PyStr ''succeeded''),
      (''fine_tuned_model'', PyNone)]"

text \<open>
  A world in which the dataset is well formed, the upload succeeds, the file is ready at
  the third attempt, and the job has succeeded when it is retrieved.
\<close>

definition world :: remote where
  "world =
     \<lparr>validate_json = (\<lambda>p. None),
      open_rb = (\<lambda>p. Inr ''{}''),
      File_create = (\<lambda>f purpose name. Inr [(''id'', PyStr ''file-1'')]),
      FineTuningJob_create =
        (\<lambda>k file_id m.
           if k < 2 then Inl (InvalidRequestError ''File file-1 is not ready'')
           else Inr job_running),
      FineTuningJob_retrieve = (\<lambda>job_id. Inr job_succeeded)\<rparr>"

definition world_malformed :: remote where
  "world_malformed =
     world\<lparr>validate_json :=
             (\<lambda>p. Some (OtherError ''DatasetValidationError'' ''record 3 has no messages''))\<rparr>"

definition world_upload_down :: remote where
  "world_upload_down =
     world\<lparr>File_create :=
             (\<lambda>f purpose name. Inl (OtherError ''APIConnectionError'' ''connection refused''))\<rparr>"

text \<open>
  The same world seen by an engine whose base model the server does not know: the file
  is ready or not, the job-creation call is refused as an invalid request every time.
\<close>

definition world_no_such_model :: remote where
  "world_no_such_model =
     world\<lparr>FineTuningJob_create :=
             (\<lambda>k file_id m.
                if m = ''gpt-9''
                then Inl (InvalidRequestError ''The model gpt-9 does not exist'')
                else FineTuningJob_create world k file_id m)\<rparr>"

definition engine0 :: engine where
  "engine0 =
     \<lparr>base_model = ''gpt-3.5-turbo'', data_path = ''data/events.jsonl'',
      verbose = False, start_job = None\<rparr>"

definition engine1 :: engine where
  "engine1 = engine0\<lparr>start_job := Some job_running\<rparr>"

definition engine_gpt9 :: engine where
  "engine_gpt9 = engine0\<lparr>base_model := ''gpt-9''\<rparr>"


definition azure_ambient :: openai_module where
  "azure_ambient =
     \<lparr>api_base = ''https://example.openai.azure.com/'', api_type = ''azure'',
      api_version = Some ''2023-05-15'', api_key = Some ''secret''\<rparr>"

definition azure_args0 :: azure_args where
  "azure_args0 =
     \<lparr>arg_model = ''gpt-35-turbo'', arg_engine = Some ''my-deployment'',
      arg_temperature = PyOther ''0.1'', arg_max_tokens = None,
      arg_additional_kwargs = None, arg_max_retries = 10,
      arg_callback_manager = None, arg_kwargs = []\<rparr>"

definition world_retrieving :: "pydict \<Rightarrow> remote" where
  "world_retrieving job = world\<lparr>FineTuningJob_retrieve := (\<lambda>job_id. Inr job)\<rparr>"

definition super_model_kwargs0 :: pydict where
  "super_model_kwargs0 =
     [(''model'', PyStr ''gpt-35-turbo''), (''temperature'', PyOther ''0.1''),
      (''max_tokens'', PyNone), (''top_p'', PyOther ''0.9'')]"

section \<open>The retry loop\<close>

text \<open>
  While the attempts are retried the loop only moves on, leaving the events of each
  retry in the trace; at the first attempt that is not retried it returns.
\<close>

lemma launch_training_retries:
  assumes "map_of output ''id'' = Some fid"
    and "\<forall>k<n. retried env self fid (i + k)"
  shows "launch_training env self output i tr =
         launch_training env self output (i + n) (tr @ retry_events self fid n)"
  using assms(2)
proof (induction n arbitrary: i tr)
  case 0
  then show ?case by (simp add: retry_events_def)
next
  case (Suc n)
  from Suc.prems have "retried env self fid (i + 0)" by blast
  then obtain e where e: "FineTuningJob_create env i fid (base_model self) = Inl e"
    "is_InvalidRequestError e"
    by (auto simp: retried_def split: sum.splits)
  have "\<forall>k<n. retried env self fid (Suc i + k)"
    using Suc.prems by (metis Suc_less_eq add_Suc_shift)
  from Suc.IH[OF this] e assms(1) show ?case
    by (subst launch_training.simps) (simp add: retry_events_def)
qed

lemma launch_training_stops:
  assumes "map_of output ''id'' = Some fid" and "\<not> retried env self fid n"
  shows "launch_training env self output n tr =
         Some (case FineTuningJob_create env n fid (base_model self) of
                 Inl e \<Rightarrow> (Inl e, self, tr @ [JobCreate fid (base_model self)])
               | Inr job \<Rightarrow> (Inr (), self\<lparr>start_job := Some job\<rparr>,
                              tr @ [JobCreate fid (base_model self)]))"
  using assms
  by (subst launch_training.simps) (simp add: retried_def split: sum.splits)

text \<open>
  A loop that returns has met an attempt that is not retried. So a loop whose every
  attempt is retried never returns.
\<close>

lemma launch_training_returns:
  assumes "launch_training env self out n tr = Some y"
  shows "\<forall>fid. map_of out ''id'' = Some fid \<longrightarrow> (\<exists>k\<ge>n. \<not> retried env self fid k)"
proof (rule launch_training.raw_induct
    [where P = "\<lambda>env self out n tr y.
        \<forall>fid. map_of out ''id'' = Some fid \<longrightarrow> (\<exists>k\<ge>n. \<not> retried env self fid k)",
     OF _ assms], goal_cases)
  case (1 f env self out n tr y)
  show ?case
  proof (intro allI impI)
    fix fid assume fid: "map_of out ''id'' = Some fid"
    show "\<exists>k\<ge>n. \<not> retried env self fid k"
    proof (cases "retried env self fid n")
      case False
      then show ?thesis by blast
    next
      case True
      then obtain e where e: "FineTuningJob_create env n fid (base_model self) = Inl e"
        "is_InvalidRequestError e"
        by (auto simp: retried_def split: sum.splits)
      with 1(2) fid have
        "f env self out (Suc n)
           (tr @ [JobCreate fid (base_model self),
                  Print ''Waiting for file to be ready...'', Sleep 60]) = Some y"
        by simp
      from 1(1)[OF this] fid obtain k where "Suc n \<le> k" "\<not> retried env self fid k"
        by blast
      then have "n \<le> k \<and> \<not> retried env self fid k" by simp
      then show ?thesis by blast
    qed
  qed
qed

lemma launch_training_diverges:
  assumes "map_of output ''id'' = Some fid" and "\<forall>k\<ge>n. retried env self fid k"
  shows "launch_training env self output n tr = None"
proof (cases "launch_training env self output n tr")
  case None
  then show ?thesis .
next
  case (Some y)
  from launch_training_returns[OF Some] assms(1) obtain k where "n \<le> k" "\<not> retried env self fid k" by blast
  with assms(2) show ?thesis by blast
qed

text \<open>What the loop leaves in the engine, from the first attempt that is not retried.\<close>

lemma launch_training_first_stop:
  assumes ret: "launch_training env self out n tr = Some y"
    and fid: "map_of out ''id'' = Some fid"
  shows "\<exists>d. (\<forall>j<d. retried env self fid (n + j)) \<and> \<not> retried env self fid (n + d)"
proof -
  from launch_training_returns[OF ret] fid obtain k where
    k: "n \<le> k" "\<not> retried env self fid k" by blast
  define m where "m = (LEAST k. n \<le> k \<and> \<not> retried env self fid k)"
  have m: "n \<le> m \<and> \<not> retried env self fid m"
    unfolding m_def by (rule LeastI[of "\<lambda>k. n \<le> k \<and> \<not> retried env self fid k" k]) (simp add: k)
  have least: "retried env self fid j" if "n \<le> j" "j < m" for j
    using that not_less_Least[of j "\<lambda>k. n \<le> k \<and> \<not> retried env self fid k"]
    unfolding m_def by blast
  have "\<forall>j<m - n. retried env self fid (n + j)"
    using least by simp
  moreover have "\<not> retried env self fid (n + (m - n))"
    using m by simp
  ultimately show ?thesis by blast
qed

lemma launch_training_state:
  assumes ret: "launch_training env self out n tr = Some y"
  shows "case fst y of
      Inl e \<Rightarrow> fst (snd y) = self
    | Inr u \<Rightarrow> (\<exists>k file_id job.
         map_of out ''id'' = Some file_id \<and>
         FineTuningJob_create env k file_id (base_model self) = Inr job \<and>
         fst (snd y) = self\<lparr>start_job := Some job\<rparr>)"
proof (cases "map_of out ''id''")
  case None
  with ret have "y = (Inl (KeyError ''id''), self, tr)"
    by (subst (asm) launch_training.simps) simp
  then show ?thesis by simp
next
  case (Some fid)
  from launch_training_first_stop[OF ret Some] obtain d where
    d: "\<forall>j<d. retried env self fid (n + j)" "\<not> retried env self fid (n + d)" by blast
  have "launch_training env self out n tr =
        launch_training env self out (n + d) (tr @ retry_events self fid d)"
    by (rule launch_training_retries[OF Some d(1)])
  also have "\<dots> = Some (case FineTuningJob_create env (n + d) fid (base_model self) of
                 Inl e \<Rightarrow> (Inl e, self, (tr @ retry_events self fid d) @ [JobCreate fid (base_model self)])
               | Inr job \<Rightarrow> (Inr (), self\<lparr>start_job := Some job\<rparr>,
                              (tr @ retry_events self fid d) @ [JobCreate fid (base_model self)]))"
    (is "_ = Some ?R")
    by (rule launch_training_stops[OF Some d(2)])
  finally have "launch_training env self out n tr = Some ?R" .
  with ret have "Some y = Some ?R" by (rule trans[OF sym])
  then have y: "y = ?R" by (simp only: option.inject)
  show ?thesis
  proof (cases "FineTuningJob_create env (n + d) fid (base_model self)")
    case (Inl e)
    with y show ?thesis by simp
  next
    case (Inr job)
    with y have "fst y = Inr ()" "fst (snd y) = self\<lparr>start_job := Some job\<rparr>" by simp_all
    with Some Inr show ?thesis by (simp only: sum.case) blast
  qed
qed


section \<open>finetune\<close>

lemma finetune_uploaded:
  assumes "validate_json env (data_path self) = None"
    and "open_rb env (data_path self) = Inr f"
    and "File_create env f ''fine-tune'' (basename (data_path self)) = Inr out"
    and "map_of out ''id'' = Some fid"
  shows "finetune env self =
         (case launch_training env self out 0 (uploaded_events self f) of
            None \<Rightarrow> None
          | Some (Inl e, self', tr) \<Rightarrow> Some (Inl e, self', tr)
          | Some (Inr u, self', tr) \<Rightarrow> Some (Inr (), self', tr @ launched_events self' fid))"
  using assms by (simp add: finetune_def split: option.splits sum.splits prod.splits)

text \<open>
  The loop inside \<^verbatim>\<open>finetune\<close>. After a successful validation and upload, let the
  first \<open>n\<close> job-creation attempts each raise an \<open>InvalidRequestError\<close> and let attempt
  \<open>n\<close> be the first that does not. Then \<^verbatim>\<open>finetune\<close> returns, after exactly \<open>n\<close>
  retries, each followed by a sleep of 60 seconds, with the outcome of attempt \<open>n\<close>: an
  exception of any other class is raised to the caller with the engine unchanged, a job
  is stored in \<^verbatim>\<open>_start_job\<close>. There is no bound on \<open>n\<close>.
\<close>

theorem finetune_retries_invalid_request:
  assumes "validate_json env (data_path self) = None"
    and "open_rb env (data_path self) = Inr f"
    and "File_create env f ''fine-tune'' (basename (data_path self)) = Inr out"
    and "map_of out ''id'' = Some fid"
    and "\<forall>k<n. retried env self fid k"
    and "\<not> retried env self fid n"
  shows "finetune env self =
         Some (case FineTuningJob_create env n fid (base_model self) of
                 Inl e \<Rightarrow>
                   (Inl e, self,
                    uploaded_events self f @ retry_events self fid n
                    @ [JobCreate fid (base_model self)])
               | Inr job \<Rightarrow>
                   (Inr (), self\<lparr>start_job := Some job\<rparr>,
                    uploaded_events self f @ retry_events self fid n
                    @ [JobCreate fid (base_model self)] @ launched_events self fid))"
proof -
  have "launch_training env self out 0 (uploaded_events self f) =
        launch_training env self out (0 + n) (uploaded_events self f @ retry_events self fid n)"
    using assms(4,5) by (intro launch_training_retries) simp_all
  also have "\<dots> = Some (case FineTuningJob_create env n fid (base_model self) of
                 Inl e \<Rightarrow> (Inl e, self, (uploaded_events self f @ retry_events self fid n)
                            @ [JobCreate fid (base_model self)])
               | Inr job \<Rightarrow> (Inr (), self\<lparr>start_job := Some job\<rparr>,
                              (uploaded_events self f @ retry_events self fid n)
                              @ [JobCreate fid (base_model self)]))"
    using launch_training_stops[OF assms(4,6)] by simp
  finally have loop: "launch_training env self out 0 (uploaded_events self f) =
       Some (case FineTuningJob_create env n fid (base_model self) of
                 Inl e \<Rightarrow> (Inl e, self, (uploaded_events self f @ retry_events self fid n)
                            @ [JobCreate fid (base_model self)])
               | Inr job \<Rightarrow> (Inr (), self\<lparr>start_job := Some job\<rparr>,
                              (uploaded_events self f @ retry_events self fid n)
                              @ [JobCreate fid (base_model self)]))" .
  show ?thesis
    unfolding finetune_uploaded[OF assms(1-4)] loop
    by (cases "FineTuningJob_create env n fid (base_model self)")
       (simp_all add: launched_events_def)
qed

text \<open>With no attempt that is not retried, \<^verbatim>\<open>finetune\<close> never returns.\<close>

lemma finetune_never_returns:
  assumes "validate_json env (data_path self) = None"
    and "open_rb env (data_path self) = Inr f"
    and "File_create env f ''fine-tune'' (basename (data_path self)) = Inr out"
    and "map_of out ''id'' = Some fid"
    and "\<forall>k. retried env self fid k"
  shows "finetune env self = None"
proof -
  have "launch_training env self out 0 (uploaded_events self f) = None"
    using assms(4,5) by (intro launch_training_diverges) simp_all
  then show ?thesis
    unfolding finetune_uploaded[OF assms(1-4)] by simp
qed

lemma world_simps:
  "validate_json world p = None"
  "open_rb world p = Inr ''{}''"
  "File_create world f purpose name = Inr [(''id'', PyStr ''file-1'')]"
  "FineTuningJob_create world k fid m =
     (if k < 2 then Inl (InvalidRequestError ''File file-1 is not ready'') else Inr job_running)"
  "FineTuningJob_retrieve world j = Inr job_succeeded"
  by (simp_all add: world_def)

theorem finetune_retries_invalid_request_witness:
  "finetune world engine0 =
     Some (Inr (), engine0\<lparr>start_job := Some job_running\<rparr>,
           uploaded_events engine0 ''{}'' @ retry_events engine0 (PyStr ''file-1'') 2
           @ [JobCreate (PyStr ''file-1'') ''gpt-3.5-turbo'']
           @ launched_events engine0 (PyStr ''file-1''))"
  using finetune_retries_invalid_request
    [of world engine0 "''{}''" "[(''id'', PyStr ''file-1'')]" "PyStr ''file-1''" 2]
  by (simp add: world_simps retried_def engine0_def)

text \<open>
  C1. The handler of the loop says what it is for: it prints
  \<^verbatim>\<open>Waiting for file to be ready...\<close>. A failure of the job-creation call that is not
  about the readiness of the file has to reach the caller at once, without a retry. The
  \<^verbatim>\<open>except\<close> clause catches every \<open>InvalidRequestError\<close> though. Here the dataset is
  well formed, the upload succeeds, and the server does not know the base model: it
  refuses every job-creation call as an invalid request. The refusal never reaches the
  caller, and \<^verbatim>\<open>finetune\<close> does not return.
\<close>

theorem finetune_retries_other_invalid_request:
  "FineTuningJob_create world_no_such_model 0 (PyStr ''file-1'') (base_model engine_gpt9) =
     Inl (InvalidRequestError ''The model gpt-9 does not exist'')
   \<and> finetune world_no_such_model engine_gpt9 = None"
proof
  show "FineTuningJob_create world_no_such_model 0 (PyStr ''file-1'') (base_model engine_gpt9) =
     Inl (InvalidRequestError ''The model gpt-9 does not exist'')"
    by (simp add: world_no_such_model_def engine_gpt9_def)
  show "finetune world_no_such_model engine_gpt9 = None"
    by (rule finetune_never_returns
          [of _ _ "''{}''" "[(''id'', PyStr ''file-1'')]" "PyStr ''file-1''"])
       (simp_all add: world_no_such_model_def world_def retried_def engine_gpt9_def
          engine0_def)
qed

text \<open>
  C2. When the validator raises on the dataset file, \<^verbatim>\<open>finetune\<close> raises the same
  exception, the engine is unchanged, and the only call made is the validation: the file
  is not opened, nothing is uploaded and no job is created.
\<close>

theorem finetune_validation_first:
  assumes "validate_json env (data_path self) = Some e"
  shows "finetune env self = Some (Inl e, self, [Validate (data_path self)])"
  using assms by (simp add: finetune_def)

theorem finetune_validation_first_witness:
  "validate_json world_malformed (data_path engine0)
     = Some (OtherError ''DatasetValidationError'' ''record 3 has no messages'')
   \<and> finetune world_malformed engine0
     = Some (Inl (OtherError ''DatasetValidationError'' ''record 3 has no messages''),
             engine0, [Validate ''data/events.jsonl''])"
proof -
  have h: "validate_json world_malformed (data_path engine0)
     = Some (OtherError ''DatasetValidationError'' ''record 3 has no messages'')"
    by (simp add: world_malformed_def)
  show ?thesis
    using h finetune_validation_first [OF h] by (simp add: engine0_def)
qed

text \<open>
  C7. Whenever \<^verbatim>\<open>finetune\<close> raises, the engine, and with it \<^verbatim>\<open>_start_job\<close>, is what
  it was before the call. When it returns normally, \<^verbatim>\<open>_start_job\<close> is the job that a
  successful job-creation call returned, and nothing else has changed.
\<close>

theorem finetune_atomic:
  assumes "finetune env self = Some (r, self', tr)"
  shows "case r of
           Inl e \<Rightarrow> self' = self
         | Inr u \<Rightarrow> (\<exists>k file_id job.
              FineTuningJob_create env k file_id (base_model self) = Inr job \<and>
              self' = self\<lparr>start_job := Some job\<rparr>)"
proof (cases "validate_json env (data_path self)")
  case (Some e)
  with assms show ?thesis by (auto simp: finetune_def)
next
  case None
  note valid = this
  show ?thesis
  proof (cases "open_rb env (data_path self)")
    case (Inl e)
    with assms valid show ?thesis by (auto simp: finetune_def)
  next
    case (Inr f)
    note opened = this
    show ?thesis
    proof (cases "File_create env f ''fine-tune'' (basename (data_path self))")
      case (Inl e)
      with assms valid opened show ?thesis by (auto simp: finetune_def)
    next
      case (Inr out)
      note created = this
      show ?thesis
      proof (cases "launch_training env self out 0 (uploaded_events self f)")
        case None
        with assms valid opened created show ?thesis by (auto simp: finetune_def)
      next
        case (Some y)
        obtain r0 s0 t0 where y: "y = (r0, s0, t0)" by (cases y)
        from launch_training_state[OF Some] y have st:
          "case r0 of Inl e \<Rightarrow> s0 = self
           | Inr u \<Rightarrow> (\<exists>k file_id job.
               map_of out ''id'' = Some file_id \<and>
               FineTuningJob_create env k file_id (base_model self) = Inr job \<and>
               s0 = self\<lparr>start_job := Some job\<rparr>)"
          by (simp split: sum.splits)
        show ?thesis
        proof (cases r0)
          case (Inl e)
          with assms valid opened created Some y st show ?thesis
            by (auto simp: finetune_def)
        next
          case (Inr u)
          with st obtain k file_id job where
            j: "map_of out ''id'' = Some file_id"
               "FineTuningJob_create env k file_id (base_model self) = Inr job"
               "s0 = self\<lparr>start_job := Some job\<rparr>"
            by auto
          from assms valid opened created Some y Inr j(1)
          have "r = Inr ()" "self' = s0" by (simp_all add: finetune_def)
          with j(2,3) show ?thesis by auto
        qed
      qed
    qed
  qed
qed

theorem finetune_atomic_witness:
  "finetune world_upload_down engine1 =
     Some (Inl (OtherError ''APIConnectionError'' ''connection refused''), engine1,
           [Validate ''data/events.jsonl'', OpenFile ''data/events.jsonl'',
            FileCreate ''{}'' ''fine-tune'' ''events.jsonl''])
   \<and> start_job engine1 = Some job_running"
proof -
  have h: "finetune world_upload_down engine1 =
     Some (Inl (OtherError ''APIConnectionError'' ''connection refused''), engine1,
           [Validate ''data/events.jsonl'', OpenFile ''data/events.jsonl'',
            FileCreate ''{}'' ''fine-tune'' ''events.jsonl''])"
    by (simp add: finetune_def world_upload_down_def world_def engine1_def engine0_def
          basename_def)
  show ?thesis
    using h finetune_atomic [OF h] by (simp add: engine1_def)
qed

section \<open>get_current_job and get_finetuned_model\<close>

text \<open>An engine constructed without a \<^verbatim>\<open>start_job_id\<close> holds no job and has called nothing.\<close>

lemma engine_init_no_job:
  "engine_init env bm dp vb None
     = (Inr \<lparr>base_model = bm, data_path = dp, verbose = vb, start_job = None\<rparr>, [])"
  by (simp add: engine_init_def)

text \<open>
  C3. With no job stored, \<^verbatim>\<open>get_current_job\<close> raises
  \<^verbatim>\<open>ValueError("Must call finetune() first")\<close> and calls nothing, whatever the other
  fields of the engine and whatever the world. With a stored job that has an id, it
  retrieves the job by that id, once, and its result is the result of that retrieval.
\<close>

theorem get_current_job_contract:
  "get_current_job env (self\<lparr>start_job := None\<rparr>)
     = (Inl (ValueError ''Must call finetune() first''), [])
   \<and> (map_of job ''id'' = Some job_id \<longrightarrow>
        get_current_job env (self\<lparr>start_job := Some job\<rparr>)
          = (FineTuningJob_retrieve env job_id, [JobRetrieve job_id]))"
  by (auto simp: get_current_job_def)

theorem get_current_job_contract_witness:
  "get_current_job world engine0 = (Inl (ValueError ''Must call finetune() first''), [])
   \<and> map_of job_running ''id'' = Some (PyStr ''ftjob-1'')
   \<and> get_current_job world engine1 = (Inr job_succeeded, [JobRetrieve (PyStr ''ftjob-1'')])"
  using get_current_job_contract [of world engine0 job_running "PyStr ''ftjob-1''"]
  by (simp add: engine1_def engine0_def job_running_def world_def)

text \<open>
  C4. When the snapshot that \<^verbatim>\<open>get_current_job\<close> returns has a null
  \<^verbatim>\<open>fine_tuned_model\<close>, \<^verbatim>\<open>get_finetuned_model\<close> raises the error that the job has
  no finetuned model id yet, whatever the value of \<^verbatim>\<open>status\<close>.
\<close>

theorem model_not_ready:
  assumes "get_current_job env self = (Inr current_job, tr)"
    and "map_of current_job ''id'' = Some job_id"
    and "map_of current_job ''status'' = Some status"
    and "map_of current_job ''fine_tuned_model'' = Some PyNone"
  shows "get_finetuned_model env self kwargs
         = (Inl (ValueError (''Job '' @ py_str job_id
                   @ '' does not have a finetuned model id ready yet.'')), tr)"
  using assms by (simp add: get_finetuned_model_def)

lemma get_current_job_engine1:
  "get_current_job (world_retrieving job) engine1 = (Inr job, [JobRetrieve (PyStr ''ftjob-1'')])"
  by (simp add: get_current_job_def world_retrieving_def engine1_def engine0_def
        job_running_def)

theorem model_not_ready_witness:
  "get_finetuned_model (world_retrieving job_succeeded_no_model) engine1 []
     = (Inl (ValueError ''Job ftjob-1 does not have a finetuned model id ready yet.''),
        [JobRetrieve (PyStr ''ftjob-1'')])"
  using model_not_ready
    [of "world_retrieving job_succeeded_no_model" engine1 job_succeeded_no_model
        "[JobRetrieve (PyStr ''ftjob-1'')]" "PyStr ''ftjob-1''" "PyStr ''succeeded''" "[]"]
  by (simp add: get_current_job_engine1) (simp add: job_succeeded_no_model_def)

text \<open>
  C5. When the snapshot has a model id and a status other than \<^verbatim>\<open>"succeeded"\<close>,
  \<^verbatim>\<open>get_finetuned_model\<close> raises the error that names the status it found.
\<close>

theorem job_not_succeeded:
  assumes "get_current_job env self = (Inr current_job, tr)"
    and "map_of current_job ''id'' = Some job_id"
    and "map_of current_job ''status'' = Some status"
    and "map_of current_job ''fine_tuned_model'' = Some model_id"
    and "model_id \<noteq> PyNone"
    and "status \<noteq> PyStr ''succeeded''"
  shows "get_finetuned_model env self kwargs
         = (Inl (ValueError (''Job '' @ py_str job_id @ '' has status '' @ py_str status
                   @ '', cannot get model'')), tr)"
  using assms by (simp add: get_finetuned_model_def)

theorem job_not_succeeded_witness:
  "get_finetuned_model (world_retrieving job_failed) engine1 []
     = (Inl (ValueError ''Job ftjob-1 has status failed, cannot get model''),
        [JobRetrieve (PyStr ''ftjob-1'')])"
  using job_not_succeeded
    [of "world_retrieving job_failed" engine1 job_failed
        "[JobRetrieve (PyStr ''ftjob-1'')]" "PyStr ''ftjob-1''" "PyStr ''failed''"
        "PyStr ''ft:abc123''" "[]"]
  by (simp add: get_current_job_engine1) (simp add: job_failed_def)

text \<open>A keyword \<^verbatim>\<open>self\<close> stops the call before the job is retrieved.\<close>

lemma get_finetuned_model_call_self:
  assumes "''self'' \<in> fst ` set keywords"
  shows "get_finetuned_model_call env self keywords = (Inl (TypeError ''self''), [])"
  using assms by (simp add: get_finetuned_model_call_def)

text \<open>
  C6, as the code has it. When the snapshot has status \<^verbatim>\<open>"succeeded"\<close> and a model id,
  and the extra configuration has neither an entry \<^verbatim>\<open>model\<close> nor an entry
  \<^verbatim>\<open>self\<close>, the constructor of the model handle is called with exactly that model id
  and with the extra configuration as the caller gave it.
\<close>

theorem finetuned_model_handle:
  assumes "get_current_job env self = (Inr current_job, tr)"
    and "map_of current_job ''id'' = Some job_id"
    and "map_of current_job ''status'' = Some (PyStr ''succeeded'')"
    and "map_of current_job ''fine_tuned_model'' = Some model_id"
    and "model_id \<noteq> PyNone"
    and "''model'' \<notin> fst ` set keywords"
    and "''self'' \<notin> fst ` set keywords"
  shows "get_finetuned_model_call env self keywords
         = (Inr \<lparr>llm_model = model_id, llm_kwargs = keywords\<rparr>, tr)"
  using assms by (simp add: get_finetuned_model_call_def get_finetuned_model_def)

theorem finetuned_model_handle_witness:
  "get_finetuned_model_call (world_retrieving job_succeeded) engine1
       [(''temperature'', PyOther ''0.3''), (''max_tokens'', PyInt 256)]
     = (Inr \<lparr>llm_model = PyStr ''ft:abc123'',
             llm_kwargs = [(''temperature'', PyOther ''0.3''), (''max_tokens'', PyInt 256)]\<rparr>,
        [JobRetrieve (PyStr ''ftjob-1'')])"
  using finetuned_model_handle
    [of "world_retrieving job_succeeded" engine1 job_succeeded
        "[JobRetrieve (PyStr ''ftjob-1'')]" "PyStr ''ftjob-1''" "PyStr ''ft:abc123''"
        "[(''temperature'', PyOther ''0.3''), (''max_tokens'', PyInt 256)]"]
  by (simp add: get_current_job_engine1) (simp add: job_succeeded_def)

text \<open>
  An extra configuration with an entry \<^verbatim>\<open>model\<close> is not forwarded. On a succeeded job
  with a model id, the job is retrieved, and then the call of the constructor gives the
  keyword \<^verbatim>\<open>model\<close> twice and raises a TypeError: no handle is returned.
\<close>

theorem finetuned_model_kwarg_clash:
  "get_finetuned_model_call (world_retrieving job_succeeded) engine1
       [(''model'', PyStr ''gpt-4'')]
     = (Inl (TypeError ''model''), [JobRetrieve (PyStr ''ftjob-1'')])"
  by (simp add: get_finetuned_model_call_def get_finetuned_model_def
        get_current_job_engine1 job_succeeded_def)

section \<open>AzureOpenAI: construction and request keywords\<close>

text \<open>
  C8. Constructing the wrapper without an engine raises
  \<^verbatim>\<open>ValueError("You must specify an `engine` parameter.")\<close> whatever the ambient
  settings are, also when they are invalid or the \<^verbatim>\<open>openai\<close> module is missing: the
  check comes before the validation of the environment, and the constructor of the
  superclass is not reached.
\<close>

theorem azure_init_requires_engine:
  "azure_init ambient (args\<lparr>arg_engine := None\<rparr>)
     = Inl (ValueError ''You must specify an `engine` parameter.'')"
  by (simp add: azure_init_def)

theorem azure_init_requires_engine_witness:
  "azure_init None (azure_args0\<lparr>arg_engine := None\<rparr>)
     = Inl (ValueError ''You must specify an `engine` parameter.'')"
  using azure_init_requires_engine [of None azure_args0] by simp

text \<open>
  What the validation does check. With an engine given, construction checks three ambient
  settings in this order: the API base must not be the default endpoint of OpenAI, the
  API type must be one of \<^verbatim>\<open>azure\<close>, \<^verbatim>\<open>azure_ad\<close>, \<^verbatim>\<open>azuread\<close>, and the API
  version must be set. The first check that fails raises a ValueError that names that
  setting; when all three pass, the constructor of the superclass is called.
\<close>

theorem azure_init_validates_env:
  assumes "arg_engine args = Some engine"
  shows "(api_base m = ''https://api.openai.com/v1'' \<longrightarrow>
            azure_init (Some m) args = Inl (ValueError
              (''You must set OPENAI_API_BASE to your Azure endpoint. ''
               @ ''It should look like https://YOUR_RESOURCE_NAME.openai.azure.com/'')))
       \<and> (api_base m \<noteq> ''https://api.openai.com/v1''
            \<and> api_type m \<notin> {''azure'', ''azure_ad'', ''azuread''} \<longrightarrow>
            azure_init (Some m) args = Inl (ValueError
              (''You must set OPENAI_API_TYPE to one of ''
               @ ''(`azure`, `azuread`, `azure_ad`) for Azure OpenAI.'')))
       \<and> (api_base m \<noteq> ''https://api.openai.com/v1''
            \<and> api_type m \<in> {''azure'', ''azure_ad'', ''azuread''}
            \<and> api_version m = None \<longrightarrow>
            azure_init (Some m) args = Inl (ValueError
              ''You must set OPENAI_API_VERSION for Azure OpenAI.''))
       \<and> (api_base m \<noteq> ''https://api.openai.com/v1''
            \<and> api_type m \<in> {''azure'', ''azure_ad'', ''azuread''}
            \<and> api_version m \<noteq> None \<longrightarrow>
            azure_init (Some m) args = Inr (super_init_args engine args))"
  using assms by (auto simp: azure_init_def validate_env_def)

theorem azure_init_validates_env_witness:
  "azure_init (Some (azure_ambient\<lparr>api_base := ''https://api.openai.com/v1''\<rparr>)) azure_args0
     = Inl (ValueError
         (''You must set OPENAI_API_BASE to your Azure endpoint. ''
          @ ''It should look like https://YOUR_RESOURCE_NAME.openai.azure.com/''))
   \<and> azure_init (Some (azure_ambient\<lparr>api_type := ''open_ai''\<rparr>)) azure_args0
     = Inl (ValueError
         (''You must set OPENAI_API_TYPE to one of ''
          @ ''(`azure`, `azuread`, `azure_ad`) for Azure OpenAI.''))
   \<and> azure_init (Some (azure_ambient\<lparr>api_version := None\<rparr>)) azure_args0
     = Inl (ValueError ''You must set OPENAI_API_VERSION for Azure OpenAI.'')
   \<and> azure_init (Some azure_ambient) azure_args0
     = Inr (super_init_args ''my-deployment'' azure_args0)"
  using
    azure_init_validates_env
      [of azure_args0 "''my-deployment''" "azure_ambient\<lparr>api_base := ''https://api.openai.com/v1''\<rparr>"]
    azure_init_validates_env
      [of azure_args0 "''my-deployment''" "azure_ambient\<lparr>api_type := ''open_ai''\<rparr>"]
    azure_init_validates_env
      [of azure_args0 "''my-deployment''" "azure_ambient\<lparr>api_version := None\<rparr>"]
    azure_init_validates_env
      [of azure_args0 "''my-deployment''" azure_ambient]
  by (simp add: azure_ambient_def azure_args0_def)

text \<open>The outcome of the validation does not depend on the API key.\<close>

lemma validate_env_api_key_irrelevant:
  "validate_env (Some (m\<lparr>api_key := k\<rparr>)) = validate_env (Some m)"
  by (simp add: validate_env_def)


text \<open>
  C10. When the dictionary of the superclass has an entry \<^verbatim>\<open>model\<close>, as it must
  have for \<^verbatim>\<open>pop("model")\<close> not to raise, \<^verbatim>\<open>_model_kwargs\<close> returns a dictionary
  without \<^verbatim>\<open>model\<close>, with \<^verbatim>\<open>engine\<close> bound to the engine of the instance, and
  with every other key bound as in the dictionary of the superclass.
\<close>

theorem model_kwargs_frame:
  assumes "map_of super_model_kwargs ''model'' = Some v"
  shows "case model_kwargs engine super_model_kwargs of
           Inl e \<Rightarrow> False
         | Inr kw \<Rightarrow>
             map_of kw ''model'' = None
             \<and> map_of kw ''engine'' = Some (PyStr engine)
             \<and> (\<forall>k. k \<noteq> ''model'' \<and> k \<noteq> ''engine'' \<longrightarrow>
                    map_of kw k = map_of super_model_kwargs k)"
  using assms by (simp add: model_kwargs_def update_conv' delete_conv')

theorem model_kwargs_frame_witness:
  "map_of super_model_kwargs0 ''model'' = Some (PyStr ''gpt-35-turbo'')
   \<and> model_kwargs ''my-deployment'' super_model_kwargs0
     = Inr [(''temperature'', PyOther ''0.1''), (''max_tokens'', PyNone),
            (''top_p'', PyOther ''0.9''), (''engine'', PyStr ''my-deployment'')]"
  using model_kwargs_frame [of super_model_kwargs0 "PyStr ''gpt-35-turbo''" "''my-deployment''"]
  by (simp add: super_model_kwargs0_def model_kwargs_def)

end
